theory Spec2Isabelle
  imports Main
begin

section \<open>The dashboard's task reconciliation (src/frontend/dashboard.js)\<close>

text \<open>
  The dashboard keeps a table \<open>tasks\<close> from task identifier to task object. The table
  is filled by \<open>fetchTasks\<close> (a pull of \<open>GET /tasks\<close>) and changed by
  \<open>handleWsMessage\<close>, which \<open>ws.onmessage\<close> calls on every frame that
  \<open>JSON.parse\<close> accepts. This theory embeds these functions, and the rendering
  functions they call as far as they decide what happens to the table: whether a card
  exists, and whether a call throws.

  What the embedding leaves out, and assumes:
  \<^item> \<open>tasks\<close> is a plain object. Its own properties are the map \<open>tasks\<close> of the
    state; what it inherits is seen by \<open>known\<close> below, the truth of
    \<open>tasks[task_id]\<close>. Of an inherited value only its truth is embedded. A member of
    \<open>Object.prototype\<close> has no \<open>logs\<close>, so a log message for it throws, and what
    \<open>updateTaskCard\<close> assigns to it is not in the table. A value inherited from a task
    (after a message for the identifier \<open>__proto__\<close>) is taken in the same way, which
    is what the code does unless that value is an object with a \<open>logs\<close> array of its
    own, or the grid has a card under its name. The properties that depend on this are
    stated for a table that inherits from \<open>Object.prototype\<close> alone, or for an
    identifier other than \<open>__proto__\<close>.
  \<^item> A card is the tree that the browser builds from the template when the texts put
    into it hold no markup: no \<open><\<close> in the persona and the summary, and a status
    without \<open><\<close>, \<open>"\<close>, \<open>&\<close> and the class name \<open>empty-state\<close>. Then every card has its
    \<open>.status-badge\<close> and its summary line, and only the empty-state element matches
    \<open>.empty-state\<close>. With other texts the browser may build another tree; the
    properties below that speak of cards say for which texts they hold. No other element
    of the page has an id that starts with \<open>card-\<close>.
  \<^item> A body of \<open>GET /tasks\<close> that parses is an array of objects. Of each object
    the seven fields the dashboard reads are kept.
  \<^item> \<open>feather.replace()\<close> neither throws nor touches anything modelled here.
  \<^item> Label texts (the capitalised persona, the formatted time, upper-cased status) are
    not kept; what is kept is whether computing them throws.
  \<^item> \<open>openTaskModal\<close> and \<open>closeModal\<close> run on a click and do not touch the table;
    they are not embedded. \<open>activeTaskId\<close> is whatever they left, and every property
    holds for each of its values.
\<close>

subsection \<open>Values\<close>

text \<open>
  A JavaScript value that \<open>JSON.parse\<close> can build, or \<open>undefined\<close> (what reading
  an absent property gives). A number is kept as its canonical rendering, the string that
  \<open>String(x)\<close> returns: the code never computes with a number, it only tests, compares
  and prints them. \<open>JObj kvs\<close> is the object whose property \<open>k\<close> is
  \<open>map_of kvs k\<close>.
\<close>

datatype jsval =
    JUndefined
  | JNull
  | JBool bool
  | JNum string
  | JStr string
  | JArr "jsval list"
  | JObj "(string \<times> jsval) list"

datatype exn = TypeError

text \<open>ToBoolean. \<open>JSON.parse\<close> gives no NaN, and both zeros render as \<open>0\<close>.\<close>

fun truthy :: "jsval \<Rightarrow> bool" where
  "truthy JUndefined = False"
| "truthy JNull = False"
| "truthy (JBool b) = b"
| "truthy (JNum s) = (s \<noteq> ''0'')"
| "truthy (JStr s) = (s \<noteq> [])"
| "truthy (JArr xs) = True"
| "truthy (JObj kvs) = True"

fun is_string :: "jsval \<Rightarrow> bool" where
  "is_string (JStr s) = True"
| "is_string v = False"

text \<open>\<open>a || b\<close>\<close>

definition or_else :: "jsval \<Rightarrow> jsval \<Rightarrow> jsval" where
  "or_else a b = (if truthy a then a else b)"

text \<open>
  \<open>a === b\<close>, where \<open>b\<close> comes from a frame just parsed: an array or an object of
  the frame is a new object, identical to no value held before.
\<close>

fun strict_eq :: "jsval \<Rightarrow> jsval \<Rightarrow> bool" where
  "strict_eq (JArr xs) b = False"
| "strict_eq (JObj kvs) b = False"
| "strict_eq a b = (a = b)"

text \<open>
  Reading the property \<open>k\<close> of a value that is neither \<open>undefined\<close> nor
  \<open>null\<close>, for the names the dashboard reads: none of them is a member of a
  built-in prototype, so only an object's own property can answer.
\<close>

fun get_prop :: "jsval \<Rightarrow> string \<Rightarrow> jsval" where
  "get_prop (JObj kvs) k = (case map_of kvs k of Some v \<Rightarrow> v | None \<Rightarrow> JUndefined)"
| "get_prop v k = JUndefined"

fun join_comma :: "string list \<Rightarrow> string" where
  "join_comma [] = []"
| "join_comma [s] = s"
| "join_comma (s # t # ss) = s @ '','' @ join_comma (t # ss)"

text \<open>
  ToString, as a template literal and a property key apply it; \<open>None\<close> is the
  TypeError of ToPrimitive. An array joins its elements with commas, \<open>null\<close> and
  \<open>undefined\<close> elements as the empty string. An object of a frame has no callable
  \<open>toString\<close> of its own: with an own property of that name the conversion throws,
  without one \<open>Object.prototype.toString\<close> answers.
\<close>

fun to_string :: "jsval \<Rightarrow> string option" where
  "to_string JUndefined = Some ''undefined''"
| "to_string JNull = Some ''null''"
| "to_string (JBool b) = Some (if b then ''true'' else ''false'')"
| "to_string (JNum s) = Some s"
| "to_string (JStr s) = Some s"
| "to_string (JArr xs) =
     map_option join_comma
       (those (map (\<lambda>x. if x = JUndefined \<or> x = JNull then Some [] else to_string x) xs))"
| "to_string (JObj kvs) =
     (if map_of kvs ''toString'' = None then Some ''[object Object]'' else None)"

subsection \<open>The page's state\<close>

text \<open>
  A task object: the fields the dashboard reads, \<open>JUndefined\<close> for an absent one.
\<close>

record task =
  t_id :: jsval
  t_persona :: jsval
  t_status :: jsval
  t_created_at :: jsval
  t_logs :: jsval
  t_result :: jsval
  t_payload :: jsval

text \<open>
  A card of the grid: its id without the prefix \<open>card-\<close>, the status its class
  names carry, the status its badge's text was made from, and its summary line.
\<close>

record card =
  card_id :: string
  card_class :: string
  badge_class :: string
  badge_text :: string
  task_info :: string

datatype element = EmptyState | Card card

text \<open>
  The lines on the browser's console: \<open>console.log("Ignored non-JSON WS message:", ...)\<close>
  of \<open>ws.onmessage\<close> and \<open>console.error("Failed to fetch tasks:", ...)\<close> of
  \<open>fetchTasks\<close>.
\<close>

datatype diagnostic = IgnoredNonJson | FailedToFetch

text \<open>What a \<open>fetchTasks\<close> call finds when its awaits settle.\<close>

datatype response =
    FetchRejected
  | JsonRejected
  | Body "task list"

record state =
  tasks :: "string \<rightharpoonup> task"
  activeTaskId :: jsval
  tasksGrid :: "element list"
  consoleOutput :: "string list"
  modalStatus :: string
  resultJson :: "jsval option"
  fetching :: nat
  console :: "diagnostic list"
  connected :: bool
  reconnecting :: nat

subsection \<open>Helpers\<close>

text \<open>
  \<open>capitalize\<close> and \<open>formatTime\<close> return label texts, which are not kept: the
  result is the exception, if one is thrown. \<open>str.charAt\<close> is a function on strings
  only; \<open>new Date(isoStr)\<close> converts an array or object to a primitive first.
\<close>

definition capitalize :: "jsval \<Rightarrow> exn option" where
  "capitalize str = (if truthy str \<and> \<not> is_string str then Some TypeError else None)"

definition formatTime :: "jsval \<Rightarrow> exn option" where
  "formatTime isoStr =
     (if \<not> truthy isoStr then None
      else if to_string isoStr = None then Some TypeError else None)"

text \<open>\<open>icons[persona] || ...\<close>: the key conversion may throw.\<close>

definition getPersonaIcon :: "jsval \<Rightarrow> exn option" where
  "getPersonaIcon persona = (if to_string persona = None then Some TypeError else None)"

definition template :: "string \<Rightarrow> jsval \<Rightarrow> string option" where
  "template prefix v = map_option (\<lambda>s. prefix @ s) (to_string v)"

definition getTaskSummary :: "task \<Rightarrow> string option" where
  "getTaskSummary task =
     (let p = or_else (t_payload task) (JObj []) in
      if t_persona task = JStr ''shopper''
        then template ''Finding '' (or_else (get_prop p ''product'') (JStr ''items''))
      else if t_persona task = JStr ''rider''
        then template ''Ride to '' (or_else (get_prop p ''drop'') (JStr ''destination''))
      else if t_persona task = JStr ''patient''
        then template ''Meds: '' (or_else (get_prop p ''medicine'') (JStr ''Prescription''))
      else if t_persona task = JStr ''coordinator''
        then template ''Event: '' (or_else (get_prop p ''event_name'') (JStr ''Party''))
      else if t_persona task = JStr ''foodie''
        then template ''Order: '' (or_else (get_prop p ''food_item'') (JStr ''Food''))
      else Some ''Execution in progress...'')"

subsection \<open>Rendering\<close>

text \<open>
  The element that \<open>createTaskCard\<close> builds (lines 69 to 94), or \<open>None\<close> when
  one of the expressions in it throws: the conversions of \<open>task.id\<close> and
  \<open>task.status\<close> to strings, \<open>getPersonaIcon\<close>, \<open>capitalize\<close>,
  \<open>task.status.toUpperCase()\<close> (a function on strings only),
  \<open>getTaskSummary\<close> and \<open>formatTime\<close>.
\<close>

definition new_card :: "task \<Rightarrow> card option" where
  "new_card task =
     (case to_string (t_id task) of
        None \<Rightarrow> None
      | Some cid \<Rightarrow>
          (case to_string (t_status task) of
             None \<Rightarrow> None
           | Some cls \<Rightarrow>
               if getPersonaIcon (t_persona task) \<noteq> None then None
               else if capitalize (t_persona task) \<noteq> None then None
               else (case t_status task of
                       JStr st \<Rightarrow>
                         (case getTaskSummary task of
                            None \<Rightarrow> None
                          | Some info \<Rightarrow>
                              if formatTime (t_created_at task) \<noteq> None then None
                              else Some \<lparr>card_id = cid, card_class = cls, badge_class = cls,
                                         badge_text = st, task_info = info\<rparr>)
                     | _ \<Rightarrow> None)))"

definition renderEmptyState :: "state \<Rightarrow> state" where
  "renderEmptyState s = s\<lparr>tasksGrid := [EmptyState]\<rparr>"

text \<open>
  A function that can throw returns the exception, if any, and the state it leaves: what
  was assigned before the throw stays assigned.
\<close>

definition createTaskCard :: "state \<Rightarrow> task \<Rightarrow> exn option \<times> state" where
  "createTaskCard s task =
     (let s1 = (if EmptyState \<in> set (tasksGrid s) then s\<lparr>tasksGrid := []\<rparr> else s) in
      case new_card task of
        None \<Rightarrow> (Some TypeError, s1)
      | Some c \<Rightarrow> (None, s1\<lparr>tasksGrid := Card c # tasksGrid s1\<rparr>))"

text \<open>\<open>document.getElementById\<close>: the first element with the id.\<close>

fun has_card :: "string \<Rightarrow> element list \<Rightarrow> bool" where
  "has_card k [] = False"
| "has_card k (EmptyState # es) = has_card k es"
| "has_card k (Card c # es) = (card_id c = k \<or> has_card k es)"

fun update_card :: "string \<Rightarrow> (card \<Rightarrow> card) \<Rightarrow> element list \<Rightarrow> element list" where
  "update_card k f [] = []"
| "update_card k f (EmptyState # es) = EmptyState # update_card k f es"
| "update_card k f (Card c # es) =
     (if card_id c = k then Card (f c) # es else Card c # update_card k f es)"

definition showResult :: "state \<Rightarrow> jsval \<Rightarrow> state" where
  "showResult s result = s\<lparr>resultJson := Some result\<rparr>"

text \<open>
  \<open>message.includes\<close> is a function on strings and arrays only; setting
  \<open>textContent\<close> converts an array to a string.
\<close>

definition appendLog :: "state \<Rightarrow> jsval \<Rightarrow> exn option \<times> state" where
  "appendLog s message =
     (case message of
        JStr m \<Rightarrow> (None, s\<lparr>consoleOutput := consoleOutput s @ [m]\<rparr>)
      | JArr xs \<Rightarrow>
          (case to_string message of
             None \<Rightarrow> (Some TypeError, s)
           | Some m \<Rightarrow> (None, s\<lparr>consoleOutput := consoleOutput s @ [m]\<rparr>))
      | _ \<Rightarrow> (Some TypeError, s))"

text \<open>The parameter \<open>result\<close> has the default \<open>null\<close>, taken when it is \<open>undefined\<close>.\<close>

definition updateTaskCard :: "state \<Rightarrow> jsval \<Rightarrow> jsval \<Rightarrow> jsval \<Rightarrow> exn option \<times> state" where
  "updateTaskCard s taskId status result0 =
     (let result = (if result0 = JUndefined then JNull else result0) in
      case to_string taskId of
        None \<Rightarrow> (Some TypeError, s)
      | Some k \<Rightarrow>
          if \<not> has_card k (tasksGrid s) then (None, s)
          else
            (case to_string status of
               None \<Rightarrow> (Some TypeError, s)
             | Some cls \<Rightarrow>
                 let s1 = s\<lparr>tasksGrid :=
                            update_card k (\<lambda>c. c\<lparr>card_class := cls, badge_class := cls\<rparr>)
                              (tasksGrid s)\<rparr>
                 in
                 (case status of
                    JStr st \<Rightarrow>
                      let s2 = s1\<lparr>tasksGrid :=
                                 update_card k (\<lambda>c. c\<lparr>badge_text := st\<rparr>) (tasksGrid s1)\<rparr>;
                          s3 = (case tasks s2 k of
                                  None \<Rightarrow> s2
                                | Some t \<Rightarrow>
                                    s2\<lparr>tasks := (tasks s2)
                                      (k \<mapsto> t\<lparr>t_status := status, t_result := result\<rparr>)\<rparr>);
                          s4 = (if strict_eq (activeTaskId s3) taskId
                                then
                                  (let s' = s3\<lparr>modalStatus := st\<rparr> in
                                   if st = ''success'' \<or> st = ''failed''
                                   then showResult s' result else s')
                                else s3)
                      in (None, s4)
                  | _ \<Rightarrow> (Some TypeError, s1))))"

subsection \<open>Loading the snapshot\<close>

text \<open>
  \<open>fetchTasks\<close> runs up to its first \<open>await\<close> when it is called: a request is
  in flight. \<open>fetchTasks_resume\<close> is the rest of its body, run when the request and
  \<open>response.json()\<close> have settled.
\<close>

definition fetchTasks :: "state \<Rightarrow> state" where
  "fetchTasks s = s\<lparr>fetching := Suc (fetching s)\<rparr>"

text \<open>The body of \<open>data.forEach\<close>, which a throw leaves.\<close>

fun forEach_task :: "state \<Rightarrow> task list \<Rightarrow> exn option \<times> state" where
  "forEach_task s [] = (None, s)"
| "forEach_task s (task # rest) =
     (case to_string (t_id task) of
        None \<Rightarrow> (Some TypeError, s)
      | Some k \<Rightarrow>
          (case createTaskCard (s\<lparr>tasks := (tasks s)(k \<mapsto> task)\<rparr>) task of
             (Some e, s') \<Rightarrow> (Some e, s')
           | (None, s') \<Rightarrow> forEach_task s' rest))"

definition fetchTasks_resume :: "state \<Rightarrow> response \<Rightarrow> state" where
  "fetchTasks_resume s0 r =
     (let s = s0\<lparr>fetching := fetching s0 - 1\<rparr> in
      case r of
        FetchRejected \<Rightarrow> s\<lparr>console := console s @ [FailedToFetch]\<rparr>
      | JsonRejected \<Rightarrow> s\<lparr>console := console s @ [FailedToFetch]\<rparr>
      | Body data \<Rightarrow>
          (let s1 = s\<lparr>tasksGrid := [], tasks := Map.empty\<rparr> in
           if data = [] then renderEmptyState s1
           else
             (case forEach_task s1 data of
                (None, s2) \<Rightarrow> s2
              | (Some e, s2) \<Rightarrow> s2\<lparr>console := console s2 @ [FailedToFetch]\<rparr>)))"

subsection \<open>The push connection\<close>

text \<open>
  \<open>now\<close> is what \<open>new Date().toISOString()\<close> returns when the message is handled.
  Destructuring \<open>null\<close> throws; destructuring any other parsed value reads its six
  properties. \<open>newTask\<close> is the object that a start message makes (lines 228 to 236).
\<close>

definition newTask :: "string \<Rightarrow> jsval \<Rightarrow> jsval \<Rightarrow> task" where
  "newTask now task_id persona =
     \<lparr>t_id = task_id, t_persona = persona, t_status = JStr ''running'',
      t_created_at = JStr now, t_logs = JArr [], t_result = JNull, t_payload = JObj []\<rparr>"

text \<open>
  \<open>tasks\<close> is created as \<open>{}\<close>, so \<open>tasks[task_id]\<close> also finds what the object
  inherits. These are the members of \<open>Object.prototype\<close>, all of them truthy.
\<close>

definition object_members :: "string list" where
  "object_members =
     [''constructor'', ''__defineGetter__'', ''__defineSetter__'', ''hasOwnProperty'',
      ''__lookupGetter__'', ''__lookupSetter__'', ''isPrototypeOf'',
      ''propertyIsEnumerable'', ''toString'', ''valueOf'', ''__proto__'',
      ''toLocaleString'']"

text \<open>The property \<open>k\<close> of a task object, \<open>undefined\<close> when it has none.\<close>

definition task_prop :: "task \<Rightarrow> string \<Rightarrow> jsval" where
  "task_prop t k =
     (if k = ''id'' then t_id t
      else if k = ''persona'' then t_persona t
      else if k = ''status'' then t_status t
      else if k = ''created_at'' then t_created_at t
      else if k = ''logs'' then t_logs t
      else if k = ''result'' then t_result t
      else if k = ''payload'' then t_payload t
      else JUndefined)"

text \<open>
  The truth of \<open>tasks[k]\<close>. An own property is a task object, which is truthy. The
  assignment \<open>tasks['__proto__'] = task\<close> makes no own property: it makes the task
  the object that \<open>tasks\<close> inherits from, and \<open>tasks['__proto__']\<close> reads it back.
  The map keeps that task under the key \<open>__proto__\<close>. So a key that is not in the map
  is looked up in the task kept under \<open>__proto__\<close>, if there is one, and then among the
  members of \<open>Object.prototype\<close>.
\<close>

definition known :: "state \<Rightarrow> string \<Rightarrow> bool" where
  "known s k =
     (case tasks s k of
        Some t \<Rightarrow> True
      | None \<Rightarrow>
          (case tasks s ''__proto__'' of
             Some P \<Rightarrow> truthy (task_prop P k) \<or> k \<in> set object_members
           | None \<Rightarrow> k \<in> set object_members))"

definition handleWsMessage :: "string \<Rightarrow> state \<Rightarrow> jsval \<Rightarrow> exn option \<times> state" where
  "handleWsMessage now s payload =
     (if payload = JUndefined \<or> payload = JNull then (Some TypeError, s)
      else
        let type = get_prop payload ''type'';
            task_id = get_prop payload ''task_id'';
            message = get_prop payload ''message'';
            status = get_prop payload ''status'';
            result = get_prop payload ''result'';
            persona = get_prop payload ''persona''
        in
        case to_string task_id of
          None \<Rightarrow> (Some TypeError, s)
        | Some k \<Rightarrow>
            let (e1, s1) =
                  (if type = JStr ''start''
                   then createTaskCard
                          (s\<lparr>tasks := (tasks s)(k \<mapsto> newTask now task_id persona)\<rparr>)
                          (newTask now task_id persona)
                   else (None, s))
            in
            if e1 \<noteq> None then (e1, s1)
            else if \<not> known s1 k \<and> type \<noteq> JStr ''start'' then (None, fetchTasks s1)
            else if type = JStr ''log'' then
              (case tasks s1 k of
                 None \<Rightarrow> (Some TypeError, s1)
               | Some t \<Rightarrow>
                   (case t_logs t of
                      JArr ls \<Rightarrow>
                        let s2 = s1\<lparr>tasks := (tasks s1)
                                   (k \<mapsto> t\<lparr>t_logs := JArr (ls @ [message])\<rparr>)\<rparr>
                        in if strict_eq (activeTaskId s2) task_id
                           then appendLog s2 message else (None, s2)
                    | _ \<Rightarrow> (Some TypeError, s1)))
            else if type = JStr ''complete'' then updateTaskCard s1 task_id status result
            else (None, s1))"

text \<open>
  \<open>ws.onmessage\<close>: the frame is what \<open>JSON.parse\<close> made of it, \<open>None\<close> when
  it threw. One \<open>catch\<close> takes the parser's exception and the handler's.
\<close>

definition ws_onmessage :: "string \<Rightarrow> state \<Rightarrow> jsval option \<Rightarrow> state" where
  "ws_onmessage now s frame =
     (case frame of
        None \<Rightarrow> s\<lparr>console := console s @ [IgnoredNonJson]\<rparr>
      | Some data \<Rightarrow>
          (case handleWsMessage now s data of
             (None, s') \<Rightarrow> s'
           | (Some e, s') \<Rightarrow> s'\<lparr>console := console s' @ [IgnoredNonJson]\<rparr>))"

definition ws_onopen :: "state \<Rightarrow> state" where
  "ws_onopen s = s\<lparr>connected := True\<rparr>"

definition ws_onclose :: "state \<Rightarrow> state" where
  "ws_onclose s = s\<lparr>connected := False, reconnecting := Suc (reconnecting s)\<rparr>"

text \<open>
  The page after \<open>DOMContentLoaded\<close>: the table is empty, \<open>fetchTasks()\<close> has been
  called and the socket is being opened. \<open>grid\<close> is what the page's markup puts into
  the grid.
\<close>

definition init :: "element list \<Rightarrow> state" where
  "init grid =
     fetchTasks \<lparr>tasks = Map.empty, activeTaskId = JNull, tasksGrid = grid,
                 consoleOutput = [], modalStatus = [], resultJson = None, fetching = 0,
                 console = [], connected = False, reconnecting = 0\<rparr>"

text \<open>What the event loop delivers, one callback at a time.\<close>

datatype event =
    Message string "jsval option"
  | Settled response
  | Opened
  | Closed

fun deliver :: "state \<Rightarrow> event \<Rightarrow> state" where
  "deliver s (Message now frame) = ws_onmessage now s frame"
| "deliver s (Settled r) = fetchTasks_resume s r"
| "deliver s Opened = ws_onopen s"
| "deliver s Closed = ws_onclose s"

definition run :: "state \<Rightarrow> event list \<Rightarrow> state" where
  "run s evs = foldl deliver s evs"

text \<open>The three frames of the push interface.\<close>

definition Start :: "jsval \<Rightarrow> jsval \<Rightarrow> jsval" where
  "Start task_id persona =
     JObj [(''type'', JStr ''start''), (''task_id'', task_id), (''persona'', persona)]"

definition Log :: "jsval \<Rightarrow> jsval \<Rightarrow> jsval" where
  "Log task_id message =
     JObj [(''type'', JStr ''log''), (''task_id'', task_id), (''message'', message)]"

definition Complete :: "jsval \<Rightarrow> jsval \<Rightarrow> jsval \<Rightarrow> jsval" where
  "Complete task_id status result =
     JObj [(''type'', JStr ''complete''), (''task_id'', task_id), (''status'', status),
           (''result'', result)]"

subsection \<open>Notions the properties are stated with\<close>

text \<open>
  The summary line as a table, to compare \<open>getTaskSummary\<close> with: for each persona
  the payload field that the specification names for it, and the text before the field
  and the stand-in for a missing field that the persona's line of the code has.
\<close>

definition summary_fields :: "(jsval \<times> string \<times> string \<times> string) list" where
  "summary_fields =
     [(JStr ''shopper'', ''product'', ''Finding '', ''items''),
      (JStr ''rider'', ''drop'', ''Ride to '', ''destination''),
      (JStr ''patient'', ''medicine'', ''Meds: '', ''Prescription''),
      (JStr ''coordinator'', ''event_name'', ''Event: '', ''Party''),
      (JStr ''foodie'', ''food_item'', ''Order: '', ''Food'')]"

text \<open>The summary line of a persona when nothing of the payload can be used.\<close>

definition fallback_summary :: "jsval \<Rightarrow> string" where
  "fallback_summary persona =
     (case map_of summary_fields persona of
        None \<Rightarrow> ''Execution in progress...''
      | Some (field, prefix, fallback) \<Rightarrow> prefix @ fallback)"

text \<open>
  What the page shows: the grid, the modal's console, status and result, and the
  connection indicator. The browser's console is not part of it.
\<close>

definition page :: "state \<Rightarrow> element list \<times> string list \<times> string \<times> jsval option \<times> bool" where
  "page s = (tasksGrid s, consoleOutput s, modalStatus s, resultJson s, connected s)"

text \<open>
  Three pages that the properties are tried on: one where task \<open>t1\<close> has started and
  logged a line, one where it has completed, and one whose snapshot held a task without
  a \<open>logs\<close> field.
\<close>

definition started :: state where
  "started = run (init [])
     [Message ''T0'' (Some (Start (JStr ''t1'') (JStr ''shopper''))),
      Message ''T1'' (Some (Log (JStr ''t1'') (JStr ''searching'')))]"



text \<open>
  A persona whose text the card's template takes as text: a string without \<open><\<close>, or a
  falsy value, for which the template prints nothing.
\<close>

fun plain_persona :: "jsval \<Rightarrow> bool" where
  "plain_persona (JStr pn) = (CHR ''<'' \<notin> set pn)"
| "plain_persona v = (\<not> truthy v)"





section \<open>Properties\<close>

subsection \<open>What \<open>handleWsMessage\<close> does, by the message's type\<close>

lemma get_prop_JStr_not_null:
  "get_prop p k = JStr x \<Longrightarrow> p \<noteq> JUndefined \<and> p \<noteq> JNull"
  by (cases p) auto

lemma createTaskCard_tasks: "tasks (snd (createTaskCard s t)) = tasks s"
  by (simp add: createTaskCard_def Let_def split: option.splits)

lemma handle_start:
  assumes "get_prop p ''type'' = JStr ''start''"
    and "to_string (get_prop p ''task_id'') = Some k"
  shows "handleWsMessage now s p =
           createTaskCard
             (s\<lparr>tasks := (tasks s)
                (k \<mapsto> newTask now (get_prop p ''task_id'') (get_prop p ''persona''))\<rparr>)
             (newTask now (get_prop p ''task_id'') (get_prop p ''persona''))"
  using assms get_prop_JStr_not_null[OF assms(1)]
  by (auto simp add: handleWsMessage_def Let_def split: prod.splits)

lemma known_own: "tasks s k = Some t \<Longrightarrow> known s k"
  by (simp add: known_def)

lemma handle_unknown:
  assumes "p \<noteq> JUndefined" and "p \<noteq> JNull"
    and "get_prop p ''type'' \<noteq> JStr ''start''"
    and "to_string (get_prop p ''task_id'') = Some k" and "\<not> known s k"
  shows "handleWsMessage now s p = (None, fetchTasks s)"
  using assms by (auto simp add: handleWsMessage_def Let_def)

lemma handle_log:
  assumes "get_prop p ''type'' = JStr ''log''"
    and "to_string (get_prop p ''task_id'') = Some k"
    and "tasks s k = Some t" and "t_logs t = JArr ls"
  shows "handleWsMessage now s p =
     (let s2 = s\<lparr>tasks := (tasks s)
                  (k \<mapsto> t\<lparr>t_logs := JArr (ls @ [get_prop p ''message''])\<rparr>)\<rparr>
      in if strict_eq (activeTaskId s) (get_prop p ''task_id'')
         then appendLog s2 (get_prop p ''message'') else (None, s2))"
  using assms get_prop_JStr_not_null[OF assms(1)] known_own[OF assms(3)]
  by (auto simp add: handleWsMessage_def Let_def)

lemma handle_complete:
  assumes "get_prop p ''type'' = JStr ''complete''"
    and "to_string (get_prop p ''task_id'') = Some k" and "tasks s k = Some t"
  shows "handleWsMessage now s p =
     updateTaskCard s (get_prop p ''task_id'') (get_prop p ''status'') (get_prop p ''result'')"
  using assms get_prop_JStr_not_null[OF assms(1)] known_own[OF assms(3)]
  by (auto simp add: handleWsMessage_def Let_def)

text \<open>
  A log or complete message for a key that only an inherited value answers: the log
  message throws, the complete message goes to \<open>updateTaskCard\<close>; neither reloads.
\<close>

lemma handle_log_inherited:
  assumes "get_prop p ''type'' = JStr ''log''"
    and "to_string (get_prop p ''task_id'') = Some k"
    and "tasks s k = None" and "known s k"
  shows "handleWsMessage now s p = (Some TypeError, s)"
  using assms get_prop_JStr_not_null[OF assms(1)]
  by (auto simp add: handleWsMessage_def Let_def)

lemma handle_complete_known:
  assumes "get_prop p ''type'' = JStr ''complete''"
    and "to_string (get_prop p ''task_id'') = Some k" and "known s k"
  shows "handleWsMessage now s p =
     updateTaskCard s (get_prop p ''task_id'') (get_prop p ''status'') (get_prop p ''result'')"
  using assms get_prop_JStr_not_null[OF assms(1)]
  by (auto simp add: handleWsMessage_def Let_def)


lemma run_Nil: "run s [] = s"
  by (simp add: run_def)

lemma run_Cons: "run s (e # evs) = run (deliver s e) evs"
  by (simp add: run_def)

lemma run_append: "run s (evs @ evs') = run (run s evs) evs'"
  by (simp add: run_def)

lemma ws_start_tasks:
  assumes "get_prop p ''type'' = JStr ''start''"
    and "to_string (get_prop p ''task_id'') = Some k"
  shows "tasks (ws_onmessage now s (Some p))
           = (tasks s)(k \<mapsto> newTask now (get_prop p ''task_id'') (get_prop p ''persona''))"
proof -
  let ?t = "newTask now (get_prop p ''task_id'') (get_prop p ''persona'')"
  let ?s = "s\<lparr>tasks := (tasks s)(k \<mapsto> ?t)\<rparr>"
  have "tasks (snd (createTaskCard ?s ?t)) = tasks ?s"
    by (rule createTaskCard_tasks)
  then show ?thesis
    by (cases "createTaskCard ?s ?t")
       (auto simp add: ws_onmessage_def handle_start[OF assms] split: option.splits)
qed

text \<open>The three example pages.\<close>

lemma started_t1:
  "tasks started ''t1''
     = Some \<lparr>t_id = JStr ''t1'', t_persona = JStr ''shopper'', t_status = JStr ''running'',
              t_created_at = JStr ''T0'', t_logs = JArr [JStr ''searching''],
              t_result = JNull, t_payload = JObj []\<rparr>"
  by code_simp



subsection \<open>Start, logs, complete\<close>

lemma getTaskSummary_newTask:
  "\<exists>info. getTaskSummary (newTask now tid persona) = Some info"
  by (simp add: getTaskSummary_def newTask_def or_else_def template_def Let_def)

lemma falsy_to_string: "\<not> truthy v \<Longrightarrow> to_string v \<noteq> None"
  by (cases v) auto

lemma is_string_to_string: "is_string v \<Longrightarrow> to_string v \<noteq> None"
  by (cases v) auto

lemma new_card_newTask:
  assumes "to_string tid = Some k" and "is_string persona \<or> \<not> truthy persona"
  shows "\<exists>c. new_card (newTask now tid persona) = Some c \<and> card_id c = k"
proof -
  obtain info where i: "getTaskSummary (newTask now tid persona) = Some info"
    using getTaskSummary_newTask by blast
  have p: "to_string persona \<noteq> None"
    using assms(2) falsy_to_string is_string_to_string by blast
  have "new_card (newTask now tid persona) =
          Some \<lparr>card_id = k, card_class = ''running'', badge_class = ''running'',
                badge_text = ''running'', task_info = info\<rparr>"
    using assms i p
    by (auto simp add: new_card_def getPersonaIcon_def capitalize_def formatTime_def newTask_def)
  then show ?thesis by simp
qed

lemma start_effect:
  assumes "get_prop p ''type'' = JStr ''start''"
    and "get_prop p ''task_id'' = tid" and "to_string tid = Some k"
    and "get_prop p ''persona'' = persona"
    and "is_string persona \<or> \<not> truthy persona"
  shows "\<exists>s'. handleWsMessage now s p = (None, s')
           \<and> tasks s' = (tasks s)(k \<mapsto> newTask now tid persona)
           \<and> has_card k (tasksGrid s')"
proof -
  obtain c where c: "new_card (newTask now tid persona) = Some c" "card_id c = k"
    using new_card_newTask[OF assms(3) assms(5)] by blast
  show ?thesis
    using assms c by (simp add: handle_start createTaskCard_def Let_def)
qed

lemma appendLog_frame:
  "tasks (snd (appendLog s m)) = tasks s \<and> tasksGrid (snd (appendLog s m)) = tasksGrid s"
  by (simp add: appendLog_def split: jsval.splits option.splits)

lemma log_effect:
  assumes "to_string tid = Some k" and "tasks s k = Some t" and "t_logs t = JArr ls"
  shows "tasks (ws_onmessage now s (Some (Log tid m)))
           = (tasks s)(k \<mapsto> t\<lparr>t_logs := JArr (ls @ [m])\<rparr>)
       \<and> tasksGrid (ws_onmessage now s (Some (Log tid m))) = tasksGrid s"
proof -
  let ?p = "Log tid m"
  have p: "get_prop ?p ''type'' = JStr ''log''" "get_prop ?p ''task_id'' = tid"
    "get_prop ?p ''message'' = m"
    by (simp_all add: Log_def)
  have h: "handleWsMessage now s ?p =
     (let s2 = s\<lparr>tasks := (tasks s)(k \<mapsto> t\<lparr>t_logs := JArr (ls @ [m])\<rparr>)\<rparr>
      in if strict_eq (activeTaskId s) tid then appendLog s2 m else (None, s2))"
    using handle_log[of ?p k s t ls now] assms p by (simp add: Let_def)
  show ?thesis
    using appendLog_frame[of "s\<lparr>tasks := (tasks s)(k \<mapsto> t\<lparr>t_logs := JArr (ls @ [m])\<rparr>)\<rparr>" m]
    by (cases "appendLog (s\<lparr>tasks := (tasks s)(k \<mapsto> t\<lparr>t_logs := JArr (ls @ [m])\<rparr>)\<rparr>) m")
       (auto simp add: ws_onmessage_def h Let_def split: option.splits)
qed

lemma logs_effect:
  assumes "to_string tid = Some k"
  shows "tasks s k = Some t \<Longrightarrow> t_logs t = JArr ls \<Longrightarrow>
     tasks (run s (map (\<lambda>(n, m). Message n (Some (Log tid m))) lms)) k
        = Some (t\<lparr>t_logs := JArr (ls @ map snd lms)\<rparr>)
     \<and> tasksGrid (run s (map (\<lambda>(n, m). Message n (Some (Log tid m))) lms)) = tasksGrid s"
proof (induction lms arbitrary: s t ls)
  case Nil
  then show ?case by (simp add: run_def)
next
  case (Cons nm lms)
  obtain n m where nm: "nm = (n, m)" by (cases nm)
  let ?s1 = "ws_onmessage n s (Some (Log tid m))"
  have s1: "tasks ?s1 k = Some (t\<lparr>t_logs := JArr (ls @ [m])\<rparr>)" "tasksGrid ?s1 = tasksGrid s"
    using log_effect[OF assms Cons.prems(1) Cons.prems(2), of n m] by simp_all
  have "t_logs (t\<lparr>t_logs := JArr (ls @ [m])\<rparr>) = JArr (ls @ [m])" by simp
  from Cons.IH[OF s1(1) this] s1(2) show ?case
    by (simp add: nm run_def)
qed


lemma complete_effect:
  assumes "to_string tid = Some k" and "tasks s k = Some t" and "has_card k (tasksGrid s)"
  shows "tasks (ws_onmessage now s (Some (Complete tid (JStr st) r)))
           = (tasks s)(k \<mapsto> t\<lparr>t_status := JStr st, t_result := (if r = JUndefined then JNull else r)\<rparr>)"
proof -
  let ?p = "Complete tid (JStr st) r"
  have p: "get_prop ?p ''type'' = JStr ''complete''" "get_prop ?p ''task_id'' = tid"
    "get_prop ?p ''status'' = JStr st" "get_prop ?p ''result'' = r"
    by (simp_all add: Complete_def)
  have h: "handleWsMessage now s ?p = updateTaskCard s tid (JStr st) r"
    using handle_complete[of ?p k s t now] assms p by simp
  show ?thesis
    using assms
    by (simp add: ws_onmessage_def h updateTaskCard_def Let_def showResult_def)
qed


lemma new_card_not_string:
  assumes "truthy persona" and "\<not> is_string persona"
  shows "new_card (newTask now tid persona) = None"
  using assms
  by (simp add: new_card_def capitalize_def newTask_def split: option.splits)

lemma start_without_card:
  assumes "get_prop p ''type'' = JStr ''start''"
    and "get_prop p ''task_id'' = tid" and "to_string tid = Some k"
    and "get_prop p ''persona'' = persona"
    and "truthy persona" and "\<not> is_string persona"
  shows "tasks (ws_onmessage now s (Some p)) = (tasks s)(k \<mapsto> newTask now tid persona)
       \<and> (tasksGrid (ws_onmessage now s (Some p)) = tasksGrid s
            \<or> tasksGrid (ws_onmessage now s (Some p)) = [])
       \<and> console (ws_onmessage now s (Some p)) = console s @ [IgnoredNonJson]"
  using assms new_card_not_string[OF assms(5) assms(6), of now tid]
  by (simp add: ws_onmessage_def handle_start createTaskCard_def Let_def)

lemma complete_without_card:
  assumes "to_string tid = Some k" and "tasks s k = Some t"
    and "\<not> has_card k (tasksGrid s)"
  shows "tasks (ws_onmessage now s (Some (Complete tid st r))) = tasks s"
proof -
  let ?p = "Complete tid st r"
  have p: "get_prop ?p ''type'' = JStr ''complete''" "get_prop ?p ''task_id'' = tid"
    by (simp_all add: Complete_def)
  have h: "handleWsMessage now s ?p
             = updateTaskCard s tid (get_prop ?p ''status'') (get_prop ?p ''result'')"
    using handle_complete[of ?p k s t now] assms p by simp
  show ?thesis
    using assms by (simp add: ws_onmessage_def h updateTaskCard_def Let_def)
qed

lemma has_card_Nil_or:
  "\<not> has_card k g \<Longrightarrow> g' = g \<or> g' = [] \<Longrightarrow> \<not> has_card k g'"
  by auto

text \<open>
  C1. Let a start message for an identifier be handled at the clock reading \<open>now\<close>,
  then \<open>n\<close> log messages for it, then a complete message for it with a status string and
  a result. The identifier is any value that converts to a key; the table may have held
  it before, the log messages carry anything, and the modal shows any task.

  In each case the record afterwards has the \<open>n\<close> messages as its \<open>logs\<close>, in the
  order of arrival. Its status and result are those of the complete message when the
  start message's persona is a string without \<open><\<close>, or falsy. They are not when the
  persona is truthy and no string and the grid had no card for the identifier: the
  record keeps the status \<open>running\<close> and the result \<open>null\<close>, and the complete message
  leaves no trace.

  \<open>updateTaskCard\<close> writes the record on lines 108 to 111, after it has found the card
  (line 101 returns without one, under the comment that it should fetch then) and set
  the card's badge (line 105). \<open>createTaskCard\<close> makes no card when \<open>capitalize\<close>
  throws, which it does for every truthy persona that is no string. A persona string
  with markup in it can leave a card without a badge: \<open><!--\<close> turns the rest of the
  template into a comment, line 105 then throws, and the record stays as the second
  case has it. The embedding builds no trees from markup, so the first case is stated
  for strings without \<open><\<close>.
\<close>

theorem start_logs_complete:
  assumes "to_string tid = Some k"
    and "r \<noteq> JUndefined"
  shows "(plain_persona persona \<longrightarrow>
            tasks (run s (Message now (Some (Start tid persona))
                          # map (\<lambda>(n, m). Message n (Some (Log tid m))) lms
                          @ [Message now' (Some (Complete tid (JStr st) r))])) k
             = Some \<lparr>t_id = tid, t_persona = persona, t_status = JStr st,
                      t_created_at = JStr now, t_logs = JArr (map snd lms), t_result = r,
                      t_payload = JObj []\<rparr>)
       \<and> (truthy persona \<and> \<not> is_string persona \<and> \<not> has_card k (tasksGrid s) \<longrightarrow>
            tasks (run s (Message now (Some (Start tid persona))
                          # map (\<lambda>(n, m). Message n (Some (Log tid m))) lms
                          @ [Message now' (Some (Complete tid (JStr st) r))])) k
             = Some \<lparr>t_id = tid, t_persona = persona, t_status = JStr ''running'',
                      t_created_at = JStr now, t_logs = JArr (map snd lms),
                      t_result = JNull, t_payload = JObj []\<rparr>)"
proof -
  let ?p = "Start tid persona"
  let ?s1 = "ws_onmessage now s (Some ?p)"
  let ?s2 = "run ?s1 (map (\<lambda>(n, m). Message n (Some (Log tid m))) lms)"
  let ?c = "Complete tid (JStr st) r"
  have p: "get_prop ?p ''type'' = JStr ''start''" "get_prop ?p ''task_id'' = tid"
    "get_prop ?p ''persona'' = persona"
    by (simp_all add: Start_def)
  have k: "to_string (get_prop ?p ''task_id'') = Some k"
    using assms(1) p(2) by simp
  have t1: "tasks ?s1 k = Some (newTask now tid persona)"
    using ws_start_tasks[OF p(1) k, of now s] p by simp
  have l1: "t_logs (newTask now tid persona) = JArr []" by (simp add: newTask_def)
  have s2: "tasks ?s2 k = Some ((newTask now tid persona)\<lparr>t_logs := JArr ([] @ map snd lms)\<rparr>)"
    "tasksGrid ?s2 = tasksGrid ?s1"
    using logs_effect[OF assms(1) t1 l1, of lms] by simp_all
  have r: "run s (Message now (Some ?p)
                  # map (\<lambda>(n, m). Message n (Some (Log tid m))) lms
                  @ [Message now' (Some ?c)])
           = ws_onmessage now' ?s2 (Some ?c)"
    by (simp add: run_Nil run_Cons run_append)
  have a: "tasks (ws_onmessage now' ?s2 (Some ?c)) k
             = Some \<lparr>t_id = tid, t_persona = persona, t_status = JStr st,
                      t_created_at = JStr now, t_logs = JArr (map snd lms), t_result = r,
                      t_payload = JObj []\<rparr>"
    if pl: "plain_persona persona"
  proof -
    have "is_string persona \<or> \<not> truthy persona"
      using pl by (cases persona) auto
    from start_effect[OF p(1) p(2) assms(1) p(3) this, of now s]
    obtain s1 where s1: "handleWsMessage now s ?p = (None, s1)" "has_card k (tasksGrid s1)"
      by blast
    have "?s1 = s1" using s1(1) by (simp add: ws_onmessage_def)
    then have c2: "has_card k (tasksGrid ?s2)" using s2(2) s1(2) by simp
    have "tasks (ws_onmessage now' ?s2 (Some ?c)) k
            = Some ((newTask now tid persona)\<lparr>t_logs := JArr ([] @ map snd lms)\<rparr>
                     \<lparr>t_status := JStr st, t_result := (if r = JUndefined then JNull else r)\<rparr>)"
      using complete_effect[OF assms(1) s2(1) c2, of now' st r] by simp
    then show ?thesis using assms(2) by (simp add: newTask_def)
  qed
  have b: "tasks (ws_onmessage now' ?s2 (Some ?c)) k
             = Some \<lparr>t_id = tid, t_persona = persona, t_status = JStr ''running'',
                      t_created_at = JStr now, t_logs = JArr (map snd lms),
                      t_result = JNull, t_payload = JObj []\<rparr>"
    if tr: "truthy persona" and ns: "\<not> is_string persona"
      and nc: "\<not> has_card k (tasksGrid s)"
  proof -
    have "tasksGrid ?s1 = tasksGrid s \<or> tasksGrid ?s1 = []"
      using start_without_card[OF p(1) p(2) assms(1) p(3) tr ns, of now s] by simp
    then have "\<not> has_card k (tasksGrid ?s1)"
      using has_card_Nil_or[OF nc] by blast
    then have c2: "\<not> has_card k (tasksGrid ?s2)" using s2(2) by simp
    have "tasks (ws_onmessage now' ?s2 (Some ?c)) = tasks ?s2"
      using complete_without_card[OF assms(1) s2(1) c2] .
    then show ?thesis using s2(1) by (simp add: newTask_def)
  qed
  show ?thesis
    unfolding r using a b by blast
qed

theorem start_logs_complete_witness:
  "tasks (run (init []) [Message ''T0'' (Some (Start (JStr ''t1'') (JStr ''shopper''))),
                         Message ''T1'' (Some (Log (JStr ''t1'') (JStr ''searching''))),
                         Message ''T2'' (Some (Complete (JStr ''t1'') (JStr ''success'')
                            (JObj [(''message'', JStr ''done'')])))]) ''t1''
     = Some \<lparr>t_id = JStr ''t1'', t_persona = JStr ''shopper'', t_status = JStr ''success'',
              t_created_at = JStr ''T0'', t_logs = JArr [JStr ''searching''],
              t_result = JObj [(''message'', JStr ''done'')], t_payload = JObj []\<rparr>
   \<and> tasks (run (init []) [Message ''T0'' (Some (Start (JStr ''t1'') (JBool True))),
                         Message ''T1'' (Some (Log (JStr ''t1'') (JStr ''searching''))),
                         Message ''T2'' (Some (Complete (JStr ''t1'') (JStr ''success'')
                            (JObj [(''message'', JStr ''done'')])))]) ''t1''
     = Some \<lparr>t_id = JStr ''t1'', t_persona = JBool True, t_status = JStr ''running'',
              t_created_at = JStr ''T0'', t_logs = JArr [JStr ''searching''],
              t_result = JNull, t_payload = JObj []\<rparr>"
  using start_logs_complete [of "JStr ''t1''" "''t1''" "JObj [(''message'', JStr ''done'')]"
          "JStr ''shopper''" "init []" "''T0''" "[(''T1'', JStr ''searching'')]"
          "''T2''" "''success''"]
        start_logs_complete [of "JStr ''t1''" "''t1''" "JObj [(''message'', JStr ''done'')]"
          "JBool True" "init []" "''T0''" "[(''T1'', JStr ''searching'')]"
          "''T2''" "''success''"]
  by (simp add: init_def fetchTasks_def)

subsection \<open>A second start message\<close>

text \<open>
  C2, as the code has it. A start message for an identifier that the table already holds
  puts a new record in the old one's place: status \<open>running\<close>, no logs, no result, an
  empty payload, and the clock reading of this message as \<open>created_at\<close>. What the old
  record held is gone. So of two start messages for one identifier only the second
  decides the record: handling the same message twice gives the record that handling it
  once, at the second clock reading, gives.
\<close>

theorem start_replaces_record:
  assumes "to_string tid = Some k" and "tasks s k = Some old"
  shows "tasks (ws_onmessage now s (Some (Start tid persona)))
           = (tasks s)(k \<mapsto> newTask now tid persona)
       \<and> tasks (run s [Message now (Some (Start tid persona)),
                        Message now' (Some (Start tid persona))])
           = tasks (run s [Message now' (Some (Start tid persona))])"
proof -
  let ?p = "Start tid persona"
  have p: "get_prop ?p ''type'' = JStr ''start''" "get_prop ?p ''task_id'' = tid"
    "get_prop ?p ''persona'' = persona"
    by (simp_all add: Start_def)
  have k: "to_string (get_prop ?p ''task_id'') = Some k"
    using assms(1) p(2) by simp
  have "\<And>n s'. tasks (ws_onmessage n s' (Some ?p)) = (tasks s')(k \<mapsto> newTask n tid persona)"
    using ws_start_tasks[OF p(1) k] p by simp
  then show ?thesis
    by (simp add: run_Nil run_Cons)
qed

theorem start_replaces_record_witness:
  "tasks started ''t1''
     = Some \<lparr>t_id = JStr ''t1'', t_persona = JStr ''shopper'', t_status = JStr ''running'',
              t_created_at = JStr ''T0'', t_logs = JArr [JStr ''searching''],
              t_result = JNull, t_payload = JObj []\<rparr>
   \<and> tasks (ws_onmessage ''T2'' started (Some (Start (JStr ''t1'') (JStr ''shopper'')))) ''t1''
     = Some \<lparr>t_id = JStr ''t1'', t_persona = JStr ''shopper'', t_status = JStr ''running'',
              t_created_at = JStr ''T2'', t_logs = JArr [], t_result = JNull,
              t_payload = JObj []\<rparr>"
  using start_replaces_record
          [of "JStr ''t1''" "''t1''" started _ "''T2''" "JStr ''shopper''" "''T2''"]
        started_t1
  by (simp add: newTask_def)

text \<open>
  The claim as it was stated fails: after a start and a log message for \<open>t1\<close>, the same
  start message once more empties the logs and moves \<open>created_at\<close>.
\<close>

theorem second_start_resets_record:
  "tasks (run (init [])
       [Message ''T0'' (Some (Start (JStr ''t1'') (JStr ''shopper''))),
        Message ''T1'' (Some (Log (JStr ''t1'') (JStr ''searching'')))]) ''t1''
     = Some \<lparr>t_id = JStr ''t1'', t_persona = JStr ''shopper'', t_status = JStr ''running'',
              t_created_at = JStr ''T0'', t_logs = JArr [JStr ''searching''],
              t_result = JNull, t_payload = JObj []\<rparr>
   \<and> tasks (run (init [])
       [Message ''T0'' (Some (Start (JStr ''t1'') (JStr ''shopper''))),
        Message ''T1'' (Some (Log (JStr ''t1'') (JStr ''searching''))),
        Message ''T2'' (Some (Start (JStr ''t1'') (JStr ''shopper'')))]) ''t1''
     = Some \<lparr>t_id = JStr ''t1'', t_persona = JStr ''shopper'', t_status = JStr ''running'',
              t_created_at = JStr ''T2'', t_logs = JArr [], t_result = JNull,
              t_payload = JObj []\<rparr>"
  by code_simp

subsection \<open>A complete message for a task that has completed\<close>




subsection \<open>A message for an identifier the table does not hold\<close>

text \<open>
  C4. Take a log or complete message whose identifier is not a key of the table. The
  code does what the claim says when \<open>tasks[task_id]\<close> is falsy: \<open>handleWsMessage\<close>
  calls \<open>fetchTasks\<close> once and returns, so one more request is in flight, nothing else
  of the state has changed, and nothing is thrown.

  It does not when the identifier names something that the table inherits, which is
  truthy: the test of line 243 fails and no request is sent. On a table that inherits
  from \<open>Object.prototype\<close> alone, a log message then throws at line 252, where the
  inherited value has no \<open>logs\<close>, and all that is left of it is the line on the
  console. A complete message goes to \<open>updateTaskCard\<close>, which finds no card and
  returns at line 101: nothing at all has changed. On the page as it is loaded, with an
  empty table, \<open>constructor\<close> is such an identifier: \<open>tasks['constructor']\<close> is the
  function \<open>Object\<close>.
\<close>

theorem unknown_identifier_reloads_unless_inherited:
  assumes "get_prop p ''type'' = JStr ''log'' \<or> get_prop p ''type'' = JStr ''complete''"
    and "to_string (get_prop p ''task_id'') = Some k"
    and "tasks s k = None"
  shows "(\<not> known s k \<longrightarrow>
            handleWsMessage now s p = (None, s\<lparr>fetching := Suc (fetching s)\<rparr>)
            \<and> ws_onmessage now s (Some p) = s\<lparr>fetching := Suc (fetching s)\<rparr>)
       \<and> (known s k \<and> tasks s ''__proto__'' = None \<and> get_prop p ''type'' = JStr ''log'' \<longrightarrow>
            ws_onmessage now s (Some p) = s\<lparr>console := console s @ [IgnoredNonJson]\<rparr>)
       \<and> (known s k \<and> \<not> has_card k (tasksGrid s) \<and> get_prop p ''type'' = JStr ''complete'' \<longrightarrow>
            ws_onmessage now s (Some p) = s)"
proof -
  have n: "p \<noteq> JUndefined" "p \<noteq> JNull" "get_prop p ''type'' \<noteq> JStr ''start''"
    using assms(1) get_prop_JStr_not_null[of p "''type''"] by auto
  have a: "handleWsMessage now s p = (None, s\<lparr>fetching := Suc (fetching s)\<rparr>)
       \<and> ws_onmessage now s (Some p) = s\<lparr>fetching := Suc (fetching s)\<rparr>"
    if "\<not> known s k"
    by (simp add: ws_onmessage_def handle_unknown[OF n assms(2) that] fetchTasks_def)
  have b: "ws_onmessage now s (Some p) = s\<lparr>console := console s @ [IgnoredNonJson]\<rparr>"
    if "known s k" and "get_prop p ''type'' = JStr ''log''"
    by (simp add: ws_onmessage_def handle_log_inherited[OF that(2) assms(2) assms(3) that(1)])
  have c: "ws_onmessage now s (Some p) = s"
    if kn: "known s k" and nc: "\<not> has_card k (tasksGrid s)"
      and ty: "get_prop p ''type'' = JStr ''complete''"
  proof -
    have "handleWsMessage now s p = (None, s)"
      using handle_complete_known[OF ty assms(2) kn, of now] assms(2) nc
      by (simp add: updateTaskCard_def Let_def)
    then show ?thesis by (simp add: ws_onmessage_def)
  qed
  show ?thesis using a b c by blast
qed

theorem unknown_identifier_reloads_unless_inherited_witness:
  "ws_onmessage ''T0'' (init []) (Some (Log (JStr ''t9'') (JStr ''x'')))
     = (init [])\<lparr>fetching := Suc (fetching (init []))\<rparr>
   \<and> ws_onmessage ''T0'' (init []) (Some (Log (JStr ''constructor'') (JStr ''x'')))
     = (init [])\<lparr>console := console (init []) @ [IgnoredNonJson]\<rparr>
   \<and> ws_onmessage ''T0'' (init [])
        (Some (Complete (JStr ''constructor'') (JStr ''success'') (JStr ''ok''))) = init []"
  using unknown_identifier_reloads_unless_inherited
          [of "Log (JStr ''t9'') (JStr ''x'')" "''t9''" "init []" "''T0''"]
        unknown_identifier_reloads_unless_inherited
          [of "Log (JStr ''constructor'') (JStr ''x'')" "''constructor''" "init []" "''T0''"]
        unknown_identifier_reloads_unless_inherited
          [of "Complete (JStr ''constructor'') (JStr ''success'') (JStr ''ok'')"
              "''constructor''" "init []" "''T0''"]
  by (simp add: Log_def Complete_def known_def object_members_def init_def fetchTasks_def)

text \<open>
  The page as it is loaded, one request in flight. A log message for \<open>constructor\<close>
  sends no second request and gets the line on the console; a complete message for it
  sends none and gets no line; a log message for \<open>t9\<close> sends one.
\<close>

theorem inherited_identifier_is_not_reloaded:
  "tasks (init []) ''constructor'' = None
   \<and> fetching (init []) = 1
   \<and> fetching (ws_onmessage ''T0'' (init [])
        (Some (Log (JStr ''constructor'') (JStr ''x'')))) = 1
   \<and> console (ws_onmessage ''T0'' (init [])
        (Some (Log (JStr ''constructor'') (JStr ''x'')))) = [IgnoredNonJson]
   \<and> fetching (ws_onmessage ''T0'' (init [])
        (Some (Complete (JStr ''constructor'') (JStr ''success'') (JStr ''ok'')))) = 1
   \<and> console (ws_onmessage ''T0'' (init [])
        (Some (Complete (JStr ''constructor'') (JStr ''success'') (JStr ''ok'')))) = []
   \<and> fetching (ws_onmessage ''T0'' (init [])
        (Some (Log (JStr ''t9'') (JStr ''x'')))) = 2"
  by code_simp

subsection \<open>Messages that arrive before the first snapshot\<close>

text \<open>
  What a snapshot leaves in the table and on the grid depends on the snapshot alone.
\<close>

lemma createTaskCard_depends:
  assumes "tasksGrid s = tasksGrid s'"
  shows "fst (createTaskCard s t) = fst (createTaskCard s' t)
       \<and> tasksGrid (snd (createTaskCard s t)) = tasksGrid (snd (createTaskCard s' t))"
  using assms by (simp add: createTaskCard_def Let_def split: option.splits)

lemma forEach_task_depends:
  "tasks s = tasks s' \<Longrightarrow> tasksGrid s = tasksGrid s' \<Longrightarrow>
     fst (forEach_task s ts) = fst (forEach_task s' ts)
   \<and> tasks (snd (forEach_task s ts)) = tasks (snd (forEach_task s' ts))
   \<and> tasksGrid (snd (forEach_task s ts)) = tasksGrid (snd (forEach_task s' ts))"
proof (induction ts arbitrary: s s')
  case Nil
  then show ?case by simp
next
  case (Cons t ts)
  show ?case
  proof (cases "to_string (t_id t)")
    case None
    then show ?thesis using Cons.prems by simp
  next
    case (Some k)
    let ?a = "s\<lparr>tasks := (tasks s)(k \<mapsto> t)\<rparr>"
    let ?b = "s'\<lparr>tasks := (tasks s')(k \<mapsto> t)\<rparr>"
    obtain e1 a1 where a1: "createTaskCard ?a t = (e1, a1)"
      by (cases "createTaskCard ?a t")
    obtain e2 b1 where b1: "createTaskCard ?b t = (e2, b1)"
      by (cases "createTaskCard ?b t")
    have g: "tasksGrid ?a = tasksGrid ?b"
      using Cons.prems by simp
    have e: "e1 = e2" "tasksGrid a1 = tasksGrid b1"
      using createTaskCard_depends[OF g, of t] a1 b1 by simp_all
    have t: "tasks a1 = tasks b1"
      using createTaskCard_tasks[of ?a t] createTaskCard_tasks[of ?b t] a1 b1 Cons.prems
      by simp
    show ?thesis
    proof (cases e1)
      case None
      then show ?thesis
        using Cons.IH[OF t e(2)] Some a1 b1 e by simp
    next
      case (Some x)
      then show ?thesis
        using \<open>to_string (t_id t) = Some k\<close> a1 b1 e t by simp
    qed
  qed
qed

lemma resume_Body_depends:
  "tasks (fetchTasks_resume s (Body data)) = tasks (fetchTasks_resume s' (Body data))
   \<and> tasksGrid (fetchTasks_resume s (Body data))
       = tasksGrid (fetchTasks_resume s' (Body data))"
proof -
  let ?a = "s\<lparr>fetching := fetching s - 1, tasksGrid := [], tasks := Map.empty\<rparr>"
  let ?b = "s'\<lparr>fetching := fetching s' - 1, tasksGrid := [], tasks := Map.empty\<rparr>"
  obtain e1 a1 where a1: "forEach_task ?a data = (e1, a1)"
    by (cases "forEach_task ?a data")
  obtain e2 b1 where b1: "forEach_task ?b data = (e2, b1)"
    by (cases "forEach_task ?b data")
  have eq: "e2 = e1" "tasks a1 = tasks b1" "tasksGrid a1 = tasksGrid b1"
    using forEach_task_depends[of ?a ?b data] a1 b1 by simp_all
  have b1': "forEach_task ?b data = (e1, b1)"
    using b1 eq(1) by simp
  show ?thesis
    using a1 b1' eq(2,3)
    by (cases e1) (simp_all add: fetchTasks_resume_def Let_def renderEmptyState_def)
qed

text \<open>
  C5, as the code has it. Nothing is buffered: \<open>ws.onmessage\<close> handles a message when it
  arrives, on the table as it is then, empty before the first snapshot. When the snapshot
  arrives, \<open>fetchTasks\<close> empties the table and the grid and fills them from the
  snapshot. So after the first snapshot the table and the grid are what the snapshot
  alone gives, whatever messages came before it; no message is played again.
\<close>

theorem snapshot_overrides_earlier_messages:
  "tasks (run (init grid) (map (\<lambda>(n, f). Message n f) msgs @ [Settled (Body data)]))
     = tasks (run (init grid) [Settled (Body data)])
   \<and> tasksGrid (run (init grid) (map (\<lambda>(n, f). Message n f) msgs @ [Settled (Body data)]))
     = tasksGrid (run (init grid) [Settled (Body data)])"
  using resume_Body_depends
          [of "run (init grid) (map (\<lambda>(n, f). Message n f) msgs)" data "init grid"]
  by (simp add: run_append run_Cons run_Nil)

text \<open>
  The claim as it was stated fails: a start message that arrives before the snapshot is
  applied to the table at once, and is gone when an empty snapshot arrives; played
  against the snapshot it would have stayed.
\<close>

theorem early_start_is_applied_then_lost:
  "tasks (run (init []) [Message ''T0'' (Some (Start (JStr ''t1'') (JStr ''shopper'')))]) ''t1''
     = Some \<lparr>t_id = JStr ''t1'', t_persona = JStr ''shopper'', t_status = JStr ''running'',
              t_created_at = JStr ''T0'', t_logs = JArr [], t_result = JNull,
              t_payload = JObj []\<rparr>
   \<and> tasks (run (init []) [Message ''T0'' (Some (Start (JStr ''t1'') (JStr ''shopper''))),
                           Settled (Body [])]) ''t1'' = None
   \<and> tasks (run (init []) [Settled (Body []),
                           Message ''T0'' (Some (Start (JStr ''t1'') (JStr ''shopper'')))]) ''t1''
     = Some \<lparr>t_id = JStr ''t1'', t_persona = JStr ''shopper'', t_status = JStr ''running'',
              t_created_at = JStr ''T0'', t_logs = JArr [], t_result = JNull,
              t_payload = JObj []\<rparr>"
  by code_simp

subsection \<open>Frames that are none of the three messages\<close>






text \<open>The handler reads the six properties of a frame and nothing else of it.\<close>

lemma handle_fields:
  assumes "p \<noteq> JUndefined" and "p \<noteq> JNull" and "q \<noteq> JUndefined" and "q \<noteq> JNull"
    and "get_prop p ''type'' = get_prop q ''type''"
    and "get_prop p ''task_id'' = get_prop q ''task_id''"
    and "get_prop p ''persona'' = get_prop q ''persona''"
    and "get_prop p ''message'' = get_prop q ''message''"
    and "get_prop p ''status'' = get_prop q ''status''"
    and "get_prop p ''result'' = get_prop q ''result''"
  shows "handleWsMessage now s p = handleWsMessage now s q"
  using assms by (simp add: handleWsMessage_def)








subsection \<open>A snapshot that cannot be loaded\<close>

text \<open>
  C7, as the code has it. When the request fails, or the response's body is not JSON,
  \<open>fetchTasks\<close> leaves the table exactly as it was. The failure is written to the
  browser's console by \<open>console.error\<close> and nowhere else: the page is as it was, too.
\<close>

theorem failed_load_keeps_store:
  assumes "r = FetchRejected \<or> r = JsonRejected"
  shows "tasks (fetchTasks_resume s r) = tasks s
       \<and> page (fetchTasks_resume s r) = page s
       \<and> console (fetchTasks_resume s r) = console s @ [FailedToFetch]"
  using assms by (auto simp add: fetchTasks_resume_def page_def)

theorem failed_load_keeps_store_witness:
  "tasks (fetchTasks_resume started FetchRejected) ''t1''
     = Some \<lparr>t_id = JStr ''t1'', t_persona = JStr ''shopper'', t_status = JStr ''running'',
              t_created_at = JStr ''T0'', t_logs = JArr [JStr ''searching''],
              t_result = JNull, t_payload = JObj []\<rparr>
   \<and> console (fetchTasks_resume started FetchRejected) = console started @ [FailedToFetch]"
  using failed_load_keeps_store [of FetchRejected started] started_t1
  by simp

text \<open>
  The claim as it was stated fails in its last part: after a failed load the page shows
  what it showed before, so nothing tells the operator of the failure.
\<close>

theorem failed_load_shows_nothing:
  "page (fetchTasks_resume (init []) FetchRejected) = page (init [])
   \<and> page (fetchTasks_resume (init []) JsonRejected) = page (init [])"
  by code_simp

subsection \<open>The summary line\<close>

text \<open>
  C8, as the code has it. \<open>getTaskSummary\<close> reads nothing but its argument and changes
  nothing. For the five personas of the table it prints the persona's text and, after
  it, the persona's payload field, or the persona's own stand-in word when the payload or
  the field is missing or falsy: the stand-in depends on the persona. Only a persona
  outside the table gets the line that is the same for all,
  \<open>Execution in progress...\<close>.
\<close>

theorem getTaskSummary_by_persona:
  "getTaskSummary task =
     (case map_of summary_fields (t_persona task) of
        None \<Rightarrow> Some ''Execution in progress...''
      | Some (field, prefix, fallback) \<Rightarrow>
          (let v = get_prop (or_else (t_payload task) (JObj [])) field in
           if truthy v then template prefix v else Some (prefix @ fallback)))
   \<and> getTaskSummary (task\<lparr>t_payload := JUndefined\<rparr>)
       = Some (fallback_summary (t_persona task))"
  by (simp add: getTaskSummary_def summary_fields_def fallback_summary_def Let_def
        or_else_def template_def)

theorem getTaskSummary_by_persona_witness:
  "getTaskSummary \<lparr>t_id = JStr ''t1'', t_persona = JStr ''rider'', t_status = JStr ''running'',
      t_created_at = JNull, t_logs = JArr [], t_result = JNull,
      t_payload = JObj [(''drop'', JStr ''Pune'')]\<rparr> = Some ''Ride to Pune''
   \<and> getTaskSummary \<lparr>t_id = JStr ''t1'', t_persona = JStr ''rider'', t_status = JStr ''running'',
      t_created_at = JNull, t_logs = JArr [], t_result = JNull,
      t_payload = JObj []\<rparr> = Some ''Ride to destination''
   \<and> getTaskSummary \<lparr>t_id = JStr ''t1'', t_persona = JStr ''pilot'', t_status = JStr ''running'',
      t_created_at = JNull, t_logs = JArr [], t_result = JNull,
      t_payload = JObj []\<rparr> = Some ''Execution in progress...''"
  by (simp add: getTaskSummary_by_persona summary_fields_def or_else_def template_def)

text \<open>
  The claim as it was stated fails: with the payload absent, the line of a shopper and
  the line of a rider differ, so the stand-in is not neutral to the persona.
\<close>

theorem placeholder_depends_on_persona:
  "getTaskSummary \<lparr>t_id = JStr ''t1'', t_persona = JStr ''shopper'',
      t_status = JStr ''running'', t_created_at = JNull, t_logs = JArr [],
      t_result = JNull, t_payload = JUndefined\<rparr> = Some ''Finding items''
   \<and> getTaskSummary \<lparr>t_id = JStr ''t1'', t_persona = JStr ''rider'',
      t_status = JStr ''running'', t_created_at = JNull, t_logs = JArr [],
      t_result = JNull, t_payload = JUndefined\<rparr> = Some ''Ride to destination''"
  by (simp add: getTaskSummary_def or_else_def template_def)

subsection \<open>What a start message leaves of its payload\<close>



















subsection \<open>An exception while a message is handled\<close>



end
